theory Spec2Isabelle
  imports Main "HOL-Library.Word"
begin

section \<open>Claim signing of lbrynet.schema.signer\<close>

text \<open>
  A shallow embedding of \<^verbatim>\<open>lbrynet/schema/signer.py\<close>: the class
  \<^verbatim>\<open>NIST_ECDSASigner\<close> with its three subclasses, its methods \<^verbatim>\<open>sign\<close> and
  \<^verbatim>\<open>sign_stream_claim\<close>, and the registry function \<^verbatim>\<open>get_signer\<close>.

  The module calls collaborators that live in other modules (the claim-id validator, the
  address codec, the claim codec, the signature parser) and in libraries (hashlib, ecdsa).
  They are parameters of the model, gathered in the record \<open>env\<close>; where one of them can
  raise, its result is an \<open>option\<close> and \<open>None\<close> stands for the exception. The model
  assumes that assertions are enabled (Python without \<^verbatim>\<open>-O\<close>).
\<close>

subsection \<open>Python values\<close>

type_synonym byte = "8 word"
type_synonym bytes = "byte list"

text \<open>A Python \<^verbatim>\<open>str\<close> is a sequence of Unicode code points.\<close>

type_synonym codepoint = nat
type_synonym pystr = "codepoint list"

definition ascii :: "string \<Rightarrow> pystr" where
  "ascii s = map of_char s"

text \<open>
  The values that occur in the field mapping of a claim. A \<^verbatim>\<open>dict\<close> is an association
  list, read with \<open>map_of\<close>; its keys are the field names, each at most once.
\<close>

datatype pb_value =
    PNone
  | PStr string
  | PBytes bytes
  | PInt int
  | PDict "(string \<times> pb_value) list"

type_synonym pydict = "(string \<times> pb_value) list"

datatype error =
    InvalidCertificateId
  | UnhexlifyError
  | InvalidAddress
  | MissingName
  | UnsupportedCurveForDetached
  | UnicodeEncodeError
  | AttributeError
  | SigningPrimitiveError
  | NotASigningKey
  | KeyError string
  | ClaimCodecError
  | SignatureParseError
  | UnknownCurve string

subsection \<open>Constants of lbrynet.schema.schema\<close>

text \<open>
  Modelled from the spec: the curve and hash identifiers \<^verbatim>\<open>NIST256p\<close>, \<^verbatim>\<open>NIST384p\<close>,
  \<^verbatim>\<open>SECP256k1\<close>, \<^verbatim>\<open>SHA256\<close> and \<^verbatim>\<open>SHA384\<close> are imported from
  \<^verbatim>\<open>lbrynet.schema.schema\<close>, which is not part of the sources at hand. The
  specification names the three curve identifiers and the two hash identifiers as the
  strings below.
\<close>

definition NIST256p :: string where "NIST256p = ''NIST256p''"
definition NIST384p :: string where "NIST384p = ''NIST384p''"
definition SECP256k1 :: string where "SECP256k1 = ''SECP256k1''"
definition SHA256 :: string where "SHA256 = ''SHA256''"
definition SHA384 :: string where "SHA384 = ''SHA384''"

subsection \<open>Built-ins: \<^verbatim>\<open>str.lower\<close>, \<^verbatim>\<open>str.encode\<close>, \<^verbatim>\<open>binascii.unhexlify\<close>\<close>

definition ascii_lower :: "codepoint \<Rightarrow> codepoint" where
  "ascii_lower c = (if 65 \<le> c \<and> c \<le> 90 then c + 32 else c)"

text \<open>
  \<^verbatim>\<open>str.lower()\<close>: on a string of ASCII characters only, the letters A to Z are mapped
  to a to z. On any other string the result is given by the Unicode character database,
  the parameter \<open>unicode_lower\<close>.
\<close>

definition str_lower :: "(pystr \<Rightarrow> pystr) \<Rightarrow> pystr \<Rightarrow> pystr" where
  "str_lower unicode_lower s =
     (if list_all (\<lambda>c. c < 128) s then map ascii_lower s else unicode_lower s)"

text \<open>
  \<^verbatim>\<open>str.encode()\<close>: UTF-8. A surrogate code point raises \<^verbatim>\<open>UnicodeEncodeError\<close>; a
  \<^verbatim>\<open>str\<close> holds no code point above U+10FFFF.
\<close>

definition utf8_char :: "codepoint \<Rightarrow> bytes option" where
  "utf8_char c =
     (if c < 0x80 then Some [of_nat c]
      else if c < 0x800 then Some [of_nat (0xC0 + c div 64), of_nat (0x80 + c mod 64)]
      else if 0xD800 \<le> c \<and> c \<le> 0xDFFF then None
      else if c < 0x10000 then
        Some [of_nat (0xE0 + c div 4096), of_nat (0x80 + (c div 64) mod 64),
              of_nat (0x80 + c mod 64)]
      else if c < 0x110000 then
        Some [of_nat (0xF0 + c div 262144), of_nat (0x80 + (c div 4096) mod 64),
              of_nat (0x80 + (c div 64) mod 64), of_nat (0x80 + c mod 64)]
      else None)"

fun str_encode :: "pystr \<Rightarrow> error + bytes" where
  "str_encode [] = Inr []"
| "str_encode (c # cs) =
     (case utf8_char c of
        None \<Rightarrow> Inl UnicodeEncodeError
      | Some bs \<Rightarrow> (case str_encode cs of Inl e \<Rightarrow> Inl e | Inr rest \<Rightarrow> Inr (bs @ rest)))"

definition hex_digit :: "codepoint \<Rightarrow> nat option" where
  "hex_digit c =
     (if 48 \<le> c \<and> c \<le> 57 then Some (c - 48)
      else if 97 \<le> c \<and> c \<le> 102 then Some (c - 87)
      else if 65 \<le> c \<and> c \<le> 70 then Some (c - 55)
      else None)"

text \<open>
  \<^verbatim>\<open>binascii.unhexlify\<close> on a \<^verbatim>\<open>str\<close>: two hexadecimal digits make a byte; a string
  of odd length or with another character raises.
\<close>

fun unhexlify :: "pystr \<Rightarrow> error + bytes" where
  "unhexlify [] = Inr []"
| "unhexlify [c] = Inl UnhexlifyError"
| "unhexlify (c # d # cs) =
     (case (hex_digit c, hex_digit d) of
        (Some h, Some l) \<Rightarrow>
          (case unhexlify cs of Inl e \<Rightarrow> Inl e | Inr rest \<Rightarrow> Inr (of_nat (16 * h + l) # rest))
      | _ \<Rightarrow> Inl UnhexlifyError)"

subsection \<open>The signer classes\<close>

datatype hashfunc = hashlib_sha256 | hashlib_sha384

datatype signer_class = NIST_ECDSASigner | NIST256pSigner | NIST384pSigner | SECP256k1Signer

text \<open>The class attributes; a subclass inherits what it does not set.\<close>

fun CURVE_NAME :: "signer_class \<Rightarrow> string option" where
  "CURVE_NAME NIST_ECDSASigner = None"
| "CURVE_NAME NIST256pSigner = Some NIST256p"
| "CURVE_NAME NIST384pSigner = Some NIST384p"
| "CURVE_NAME SECP256k1Signer = Some SECP256k1"

fun HASHFUNC :: "signer_class \<Rightarrow> hashfunc" where
  "HASHFUNC NIST_ECDSASigner = hashlib_sha256"
| "HASHFUNC NIST256pSigner = hashlib_sha256"
| "HASHFUNC NIST384pSigner = hashlib_sha384"
| "HASHFUNC SECP256k1Signer = hashlib_sha256"

fun HASHFUNC_NAME :: "signer_class \<Rightarrow> string" where
  "HASHFUNC_NAME NIST_ECDSASigner = SHA256"
| "HASHFUNC_NAME NIST256pSigner = SHA256"
| "HASHFUNC_NAME NIST384pSigner = SHA384"
| "HASHFUNC_NAME SECP256k1Signer = SHA256"

text \<open>
  The object given to \<^verbatim>\<open>__init__\<close> as private key, described by what the module asks of
  it: whether it is an instance of \<^verbatim>\<open>ecdsa.SigningKey\<close>, and its method
  \<^verbatim>\<open>sign_digest_deterministic(digest, hashfunc)\<close>, if it has one (\<open>None\<close>: the attribute
  is missing, as on a verifying key). The method returns the signature, or \<open>None\<close> when it
  raises.
\<close>

record key_object =
  is_SigningKey :: bool
  sign_digest_deterministic :: "(bytes \<Rightarrow> hashfunc \<Rightarrow> bytes option) option"

record signer =
  cls :: signer_class
  private_key :: key_object

text \<open>
  The record \<open>key_object\<close> is the private key as one invocation sees it. Over several
  invocations, what a method of a Python object returns can depend on more than its
  arguments: the methods \<^verbatim>\<open>sign\<close> and \<^verbatim>\<open>sign_digest\<close> of an ecdsa key draw their nonce
  from the randomness of the process. \<open>randomness\<close> stands for what the process supplies
  during one invocation; the method of a \<open>python_key\<close> receives it next to its arguments,
  and \<open>signer_in_invocation c k r\<close> is the signer of class \<open>c\<close> with the key \<open>k\<close>, as the
  invocation with the randomness \<open>r\<close> sees it.
\<close>

type_synonym randomness = nat

record python_key =
  isinstance_SigningKey :: bool
  sign_digest_deterministic_method ::
    "(bytes \<Rightarrow> hashfunc \<Rightarrow> randomness \<Rightarrow> bytes option) option"

definition key_in_invocation :: "python_key \<Rightarrow> randomness \<Rightarrow> key_object" where
  "key_in_invocation k r =
     \<lparr> is_SigningKey = isinstance_SigningKey k,
       sign_digest_deterministic =
         (case sign_digest_deterministic_method k of
            None \<Rightarrow> None
          | Some m \<Rightarrow> Some (\<lambda>d h. m d h r)) \<rparr>"

definition signer_in_invocation :: "signer_class \<Rightarrow> python_key \<Rightarrow> randomness \<Rightarrow> signer" where
  "signer_in_invocation c k r = \<lparr> cls = c, private_key = key_in_invocation k r \<rparr>"

subsection \<open>Claims, signatures and the collaborators\<close>

text \<open>The two properties of a claim object that the module reads.\<close>

record claim =
  serialized_no_signature :: bytes
  protobuf_dict :: pydict

text \<open>
  \<^verbatim>\<open>NAMED_SECP256K1(raw_signature, certificate_id, payload)\<close> is built by the module.

  Modelled from the spec: the tuple behind a legacy signature is declared in
  \<^verbatim>\<open>lbrynet.schema.signature\<close>, not part of the sources at hand; the specification
  gives the legacy envelope the fields version, curve id, signature bytes and
  certificate id bytes.
\<close>

datatype signature_data =
    NAMED_SECP256K1 bytes bytes bytes
  | LEGACY pb_value pb_value bytes bytes

datatype signature = Signature signature_data

text \<open>
  The collaborators. \<open>'c\<close> is the type of the claim objects that \<^verbatim>\<open>Claim.load\<close> returns.
\<close>

record 'c env =
  validate_claim_id :: "pystr \<Rightarrow> bool"
  decode_address :: "pystr \<Rightarrow> bytes option"
  unicode_lower :: "pystr \<Rightarrow> pystr"
  sha256 :: "bytes \<Rightarrow> bytes"
  sha384 :: "bytes \<Rightarrow> bytes"
  decode_b64_fields :: "pydict \<Rightarrow> pydict option"
  Claim_load :: "pydict \<Rightarrow> 'c option"
  SerializeToString :: "'c \<Rightarrow> bytes option"
  flagged_parse :: "bytes \<Rightarrow> signature option"
  V_0_0_1 :: pb_value

fun digest :: "'c env \<Rightarrow> hashfunc \<Rightarrow> bytes \<Rightarrow> bytes" where
  "digest env hashlib_sha256 m = sha256 env m"
| "digest env hashlib_sha384 m = sha384 env m"

subsection \<open>Effects\<close>

text \<open>
  The cryptographic operations are logged, in the order in which they run: every method
  takes the log and returns it, extended, next to its result.
\<close>

datatype event =
    Hashed hashfunc bytes
  | SignedDigestDeterministic bytes hashfunc

type_synonym 'a result = "(error + 'a) \<times> event list"

subsection \<open>\<^verbatim>\<open>NIST_ECDSASigner.sign\<close>\<close>

definition sign :: "'c env \<Rightarrow> signer \<Rightarrow> bytes list \<Rightarrow> event list \<Rightarrow> bytes result" where
  "sign env self byte_fields w =
     (let h = HASHFUNC (cls self);
          d = digest env h (concat byte_fields);
          w1 = w @ [Hashed h (concat byte_fields)]
      in case sign_digest_deterministic (private_key self) of
           None \<Rightarrow> (Inl AttributeError, w1)
         | Some prim \<Rightarrow>
             (case prim d h of
                None \<Rightarrow> (Inl SigningPrimitiveError, w1 @ [SignedDigestDeterministic d h])
              | Some sg \<Rightarrow> (Inr sg, w1 @ [SignedDigestDeterministic d h])))"

subsection \<open>\<^verbatim>\<open>NIST_ECDSASigner.sign_stream_claim\<close>\<close>

definition dict_get :: "pydict \<Rightarrow> string \<Rightarrow> error + pb_value" where
  "dict_get d k = (case map_of d k of None \<Rightarrow> Inl (KeyError k) | Some v \<Rightarrow> Inr v)"

text \<open>Lines 57 to 67: the checks of the detached mode and the call of \<open>sign\<close>.\<close>

definition compute_signature ::
  "'c env \<Rightarrow> signer \<Rightarrow> claim \<Rightarrow> bytes \<Rightarrow> bytes \<Rightarrow> pystr \<Rightarrow> bool \<Rightarrow> event list \<Rightarrow> bytes result"
where
  "compute_signature env self claim decoded_addr raw_cert_id name detached w =
     (if detached then
        if name = [] then (Inl MissingName, w)
        else if CURVE_NAME (cls self) \<noteq> Some SECP256k1 then (Inl UnsupportedCurveForDetached, w)
        else
          (case str_encode (str_lower (unicode_lower env) name) of
             Inl e \<Rightarrow> (Inl e, w)
           | Inr name_bytes \<Rightarrow>
               sign env self
                 [name_bytes, decoded_addr, serialized_no_signature claim, raw_cert_id] w)
      else sign env self [decoded_addr, serialized_no_signature claim, raw_cert_id] w)"

text \<open>Lines 70 to 74: the result of the detached mode.\<close>

definition detached_result ::
  "'c env \<Rightarrow> claim \<Rightarrow> bytes \<Rightarrow> bytes \<Rightarrow> error + ('c \<times> signature)"
where
  "detached_result env claim signature raw_cert_id =
     (case decode_b64_fields env (protobuf_dict claim) of
        None \<Rightarrow> Inl ClaimCodecError
      | Some decoded \<Rightarrow>
          (case Claim_load env decoded of
             None \<Rightarrow> Inl ClaimCodecError
           | Some loaded \<Rightarrow>
               Inr (loaded,
                    Signature (NAMED_SECP256K1 signature raw_cert_id
                                 (serialized_no_signature claim)))))"

text \<open>Lines 79 to 90: the dictionaries \<^verbatim>\<open>sig_dict\<close> and \<^verbatim>\<open>msg\<close>.\<close>

definition sig_dict :: "'c env \<Rightarrow> signer \<Rightarrow> bytes \<Rightarrow> bytes \<Rightarrow> pydict" where
  "sig_dict env self signature raw_cert_id =
     [(''version'', V_0_0_1 env),
      (''signatureType'', (case CURVE_NAME (cls self) of None \<Rightarrow> PNone | Some n \<Rightarrow> PStr n)),
      (''signature'', PBytes signature),
      (''certificateId'', PBytes raw_cert_id)]"

definition msg :: "'c env \<Rightarrow> signer \<Rightarrow> pb_value \<Rightarrow> bytes \<Rightarrow> bytes \<Rightarrow> pydict" where
  "msg env self stream signature raw_cert_id =
     [(''version'', V_0_0_1 env),
      (''stream'', stream),
      (''publisherSignature'', PDict (sig_dict env self signature raw_cert_id))]"

text \<open>Lines 77 to 93: the result of the legacy mode.\<close>

definition legacy_result ::
  "'c env \<Rightarrow> signer \<Rightarrow> claim \<Rightarrow> bytes \<Rightarrow> bytes \<Rightarrow> error + ('c \<times> signature)"
where
  "legacy_result env self claim signature raw_cert_id =
     (if \<not> is_SigningKey (private_key self) then Inl NotASigningKey
      else
        (case decode_b64_fields env (protobuf_dict claim) of
           None \<Rightarrow> Inl ClaimCodecError
         | Some decoded \<Rightarrow>
             (case dict_get decoded ''stream'' of
                Inl e \<Rightarrow> Inl e
              | Inr stream \<Rightarrow>
                  (case Claim_load env (msg env self stream signature raw_cert_id) of
                     None \<Rightarrow> Inl ClaimCodecError
                   | Some proto \<Rightarrow>
                       (case SerializeToString env proto of
                          None \<Rightarrow> Inl ClaimCodecError
                        | Some serialized \<Rightarrow>
                            (case flagged_parse env serialized of
                               None \<Rightarrow> Inl SignatureParseError
                             | Some parsed \<Rightarrow> Inr (proto, parsed)))))))"

definition sign_stream_claim ::
  "'c env \<Rightarrow> signer \<Rightarrow> claim \<Rightarrow> pystr \<Rightarrow> pystr \<Rightarrow> pystr \<Rightarrow> bool \<Rightarrow> event list
     \<Rightarrow> ('c \<times> signature) result"
where
  "sign_stream_claim env self claim claim_address cert_claim_id name detached w =
     (if \<not> validate_claim_id env cert_claim_id then (Inl InvalidCertificateId, w)
      else
        (case unhexlify cert_claim_id of
           Inl e \<Rightarrow> (Inl e, w)
         | Inr raw_cert_id \<Rightarrow>
             (case decode_address env claim_address of
                None \<Rightarrow> (Inl InvalidAddress, w)
              | Some decoded_addr \<Rightarrow>
                  (case compute_signature env self claim decoded_addr raw_cert_id name detached w of
                     (Inl e, w') \<Rightarrow> (Inl e, w')
                   | (Inr signature, w') \<Rightarrow>
                       if detached then (detached_result env claim signature raw_cert_id, w')
                       else (legacy_result env self claim signature raw_cert_id, w')))))"

subsection \<open>\<^verbatim>\<open>get_signer\<close>\<close>

definition get_signer :: "string \<Rightarrow> error + signer_class" where
  "get_signer curve =
     (if curve = NIST256p then Inr NIST256pSigner
      else if curve = NIST384p then Inr NIST384pSigner
      else if curve = SECP256k1 then Inr SECP256k1Signer
      else Inl (UnknownCurve curve))"

subsection \<open>The contract of the signature parser\<close>

text \<open>
  Modelled from the spec: \<^verbatim>\<open>Claim.load\<close>, \<^verbatim>\<open>SerializeToString\<close> and
  \<^verbatim>\<open>Signature.flagged_parse\<close> belong to \<^verbatim>\<open>lbrynet.schema.schema.claim\<close> and
  \<^verbatim>\<open>lbrynet.schema.signature\<close>, not part of the sources at hand. The specification
  says of the signature parser: given fully serialized claim bytes, it extracts an
  embedded \<^verbatim>\<open>publisherSignature\<close> back into a structured envelope, with the fields
  version, curve id, signature bytes and certificate id bytes.

  \<open>legacy_envelope m\<close> is that envelope for a claim with the field mapping \<open>m\<close>, and
  \<open>signature_parser_contract env m\<close> says that the codec of \<open>env\<close> keeps the contract on
  \<open>m\<close>: where loading and serializing \<open>m\<close> succeed, parsing the bytes gives
  \<open>legacy_envelope m\<close>.
\<close>

definition legacy_envelope :: "pydict \<Rightarrow> signature option" where
  "legacy_envelope m =
     (case map_of m ''publisherSignature'' of
        Some (PDict sd) \<Rightarrow>
          (case (map_of sd ''version'', map_of sd ''signatureType'',
                 map_of sd ''signature'', map_of sd ''certificateId'') of
             (Some v, Some t, Some (PBytes sg), Some (PBytes c)) \<Rightarrow>
               Some (Signature (LEGACY v t sg c))
           | _ \<Rightarrow> None)
      | _ \<Rightarrow> None)"

definition signature_parser_contract :: "'c env \<Rightarrow> pydict \<Rightarrow> bool" where
  "signature_parser_contract env m =
     (case Claim_load env m of
        None \<Rightarrow> True
      | Some proto \<Rightarrow>
          (case SerializeToString env proto of
             None \<Rightarrow> True
           | Some serialized \<Rightarrow> flagged_parse env serialized = legacy_envelope m))"

subsection \<open>Example collaborators and inputs\<close>

text \<open>
  Stand-ins for the collaborators, used to run the model on concrete inputs: a validator
  that accepts 40 hexadecimal digits, an address codec that rejects the empty string, hash
  functions and a signing primitive that prefix a tag byte to their input, and a claim
  codec whose claim objects are the field mappings themselves and whose serialization
  holds a tag for the curve, the signature and the certificate id of the embedded
  signature.
\<close>

definition example_serialize :: "pydict \<Rightarrow> bytes option" where
  "example_serialize proto =
     (case legacy_envelope proto of
        Some (Signature (LEGACY v (PStr t) sg c)) \<Rightarrow>
          Some ((if t = NIST256p then 1 else if t = NIST384p then 2 else 3) #
                of_nat (length sg) # sg @ c)
      | _ \<Rightarrow> None)"

definition example_parse :: "bytes \<Rightarrow> signature option" where
  "example_parse b =
     (case b of
        t # k # q \<Rightarrow>
          Some (Signature
            (LEGACY (PStr ''_0_0_1'')
               (PStr (if t = 1 then NIST256p else if t = 2 then NIST384p else SECP256k1))
               (take (unat k) q) (drop (unat k) q)))
      | _ \<Rightarrow> None)"

definition example_env :: "pydict env" where
  "example_env =
     \<lparr> validate_claim_id = (\<lambda>s. length s = 40 \<and> list_all (\<lambda>c. hex_digit c \<noteq> None) s),
       decode_address = (\<lambda>s. if s = [] then None else Some (map of_nat s)),
       unicode_lower = (\<lambda>s. s),
       sha256 = (\<lambda>m. 0x20 # m),
       sha384 = (\<lambda>m. 0x30 # m),
       decode_b64_fields = Some,
       Claim_load = Some,
       SerializeToString = example_serialize,
       flagged_parse = example_parse,
       V_0_0_1 = PStr ''_0_0_1'' \<rparr>"

text \<open>
  Three private keys: a signing key; an object that is no \<^verbatim>\<open>ecdsa.SigningKey\<close> but has
  the method \<^verbatim>\<open>sign_digest_deterministic\<close>; a verifying key, which has not.
\<close>

definition example_key :: key_object where
  "example_key =
     \<lparr> is_SigningKey = True, sign_digest_deterministic = Some (\<lambda>d h. Some (0x53 # d)) \<rparr>"

definition example_foreign_key :: key_object where
  "example_foreign_key =
     \<lparr> is_SigningKey = False, sign_digest_deterministic = Some (\<lambda>d h. Some (0x53 # d)) \<rparr>"

definition example_verifying_key :: key_object where
  "example_verifying_key = \<lparr> is_SigningKey = False, sign_digest_deterministic = None \<rparr>"


definition example_randomized_key :: python_key where
  "example_randomized_key =
     \<lparr> isinstance_SigningKey = True,
       sign_digest_deterministic_method = Some (\<lambda>d h r. Some (of_nat r # d)) \<rparr>"

definition example_claim :: claim where
  "example_claim =
     \<lparr> serialized_no_signature = [1, 2, 3],
       protobuf_dict = [(''version'', PStr ''_0_0_1''), (''stream'', PDict [])] \<rparr>"

definition example_certificate_claim :: claim where
  "example_certificate_claim =
     \<lparr> serialized_no_signature = [4, 5],
       protobuf_dict = [(''version'', PStr ''_0_0_1''), (''certificate'', PDict [])] \<rparr>"

definition example_cert_id :: pystr where
  "example_cert_id = ascii ''00ff00ff00ff00ff00ff00ff00ff00ff00ff00AB''"

definition example_raw_cert_id :: bytes where
  "example_raw_cert_id =
     [0, 255, 0, 255, 0, 255, 0, 255, 0, 255, 0, 255, 0, 255, 0, 255, 0, 255, 0, 171]"

definition example_address :: pystr where
  "example_address = ascii ''bX''"

section \<open>Properties\<close>

subsection \<open>The example inputs\<close>

lemma unhexlify_example: "unhexlify example_cert_id = Inr example_raw_cert_id"
  by (simp add: example_cert_id_def example_raw_cert_id_def ascii_def hex_digit_def)

lemma validate_example: "validate_claim_id example_env example_cert_id"
  by (simp add: example_env_def example_cert_id_def ascii_def hex_digit_def)

lemma decode_address_example: "decode_address example_env example_address = Some [98, 88]"
  by (simp add: example_env_def example_address_def ascii_def)

subsection \<open>The log only grows, and the result does not depend on it\<close>


lemma sign_snd: "snd (sign env self fs w) = w @ snd (sign env self fs [])"
  by (simp add: sign_def Let_def split: option.splits)


lemma compute_signature_snd:
  "snd (compute_signature env self claim da raw name detached w) =
   w @ snd (compute_signature env self claim da raw name detached [])"
  using sign_snd [of env self _ w]
  by (simp add: compute_signature_def split: sum.splits)


subsection \<open>Invalid certificate id\<close>

text \<open>
  Claim C5: when the certificate id fails the claim-id validation, \<open>sign_stream_claim\<close>
  fails with \<open>InvalidCertificateId\<close> and the log of cryptographic operations is the one
  it was given: nothing has been hashed and the signing primitive has not been invoked.
\<close>

theorem invalid_certificate_id:
  assumes "\<not> validate_claim_id env cert_claim_id"
  shows "sign_stream_claim env self claim claim_address cert_claim_id name detached w =
           (Inl InvalidCertificateId, w)"
  using assms by (simp add: sign_stream_claim_def)

theorem invalid_certificate_id_witness:
  "\<not> validate_claim_id example_env (ascii ''xyz'') \<and>
   sign_stream_claim example_env \<lparr>cls = NIST256pSigner, private_key = example_key\<rparr>
       example_claim example_address (ascii ''xyz'') (ascii ''Foo'') False [] =
     (Inl InvalidCertificateId, [])"
proof -
  have h: "\<not> validate_claim_id example_env (ascii ''xyz'')"
    by (simp add: example_env_def ascii_def)
  show ?thesis
    using h invalid_certificate_id [OF h] by simp
qed

subsection \<open>The curve registry\<close>

text \<open>
  Claim C9: \<open>get_signer\<close> maps each of the three curve identifiers to the signer class
  whose \<open>CURVE_NAME\<close> is that identifier, and fails with \<open>UnknownCurve\<close> on every other
  input. It is a function of its argument alone.
\<close>

theorem get_signer_resolves:
  "get_signer NIST256p = Inr NIST256pSigner \<and> CURVE_NAME NIST256pSigner = Some NIST256p \<and>
   get_signer NIST384p = Inr NIST384pSigner \<and> CURVE_NAME NIST384pSigner = Some NIST384p \<and>
   get_signer SECP256k1 = Inr SECP256k1Signer \<and> CURVE_NAME SECP256k1Signer = Some SECP256k1 \<and>
   (curve \<notin> {NIST256p, NIST384p, SECP256k1} \<longrightarrow> get_signer curve = Inl (UnknownCurve curve))"
  by (simp add: get_signer_def NIST256p_def NIST384p_def SECP256k1_def)

theorem get_signer_resolves_witness:
  "''ed25519'' \<notin> {NIST256p, NIST384p, SECP256k1} \<and>
   get_signer ''ed25519'' = Inl (UnknownCurve ''ed25519'') \<and>
   get_signer ''NIST384p'' = Inr NIST384pSigner"
  using get_signer_resolves [of "''ed25519''"]
  by (simp add: NIST256p_def NIST384p_def SECP256k1_def)

subsection \<open>Running the examples\<close>

lemma example_env_simps:
  "sha256 example_env m = 0x20 # m"
  "sha384 example_env m = 0x30 # m"
  "unicode_lower example_env s = s"
  "decode_b64_fields example_env d = Some d"
  "Claim_load example_env d = Some d"
  "SerializeToString example_env d = example_serialize d"
  "flagged_parse example_env b = example_parse b"
  "V_0_0_1 example_env = PStr ''_0_0_1''"
  by (simp_all add: example_env_def)

lemmas run_simps =
  sign_stream_claim_def validate_example unhexlify_example decode_address_example
  compute_signature_def sign_def Let_def detached_result_def legacy_result_def
  example_env_simps example_key_def example_claim_def SECP256k1_def NIST256p_def NIST384p_def

text \<open>
  With a verifying key the legacy invocation fails inside \<open>sign\<close>, after hashing: the key
  has no method to sign with.
\<close>

lemma verifying_key_fails_in_sign:
  "sign_stream_claim example_env
       \<lparr>cls = NIST256pSigner, private_key = example_verifying_key\<rparr>
       example_claim example_address example_cert_id (ascii ''Foo'') False [] =
     (Inl AttributeError,
      [Hashed hashlib_sha256 ([98, 88] @ [1, 2, 3] @ example_raw_cert_id)])"
  by (simp add: sign_stream_claim_def validate_example unhexlify_example
        decode_address_example compute_signature_def sign_def Let_def
        example_env_simps example_verifying_key_def example_claim_def)

subsection \<open>What \<open>sign\<close> logs and returns\<close>

lemma sign_with_method:
  assumes "sign_digest_deterministic (private_key self) = Some prim"
  shows "sign env self fs w =
           ((case prim (digest env (HASHFUNC (cls self)) (concat fs)) (HASHFUNC (cls self)) of
               None \<Rightarrow> Inl SigningPrimitiveError | Some sg \<Rightarrow> Inr sg),
            w @ [Hashed (HASHFUNC (cls self)) (concat fs),
                 SignedDigestDeterministic (digest env (HASHFUNC (cls self)) (concat fs))
                   (HASHFUNC (cls self))])"
  using assms by (simp add: sign_def Let_def split: option.splits)

subsection \<open>The hash of the curve\<close>

text \<open>
  Claim C8: \<open>sign\<close> hashes the concatenated fields with the hash function of the
  signer's class, SHA-256 for \<open>NIST256pSigner\<close> and \<open>SECP256k1Signer\<close> and SHA-384 for
  \<open>NIST384pSigner\<close>, and then hands the digest, with the same hash function, to the
  key's \<open>sign_digest_deterministic\<close>, the signing entry point with deterministic nonce
  generation. The log holds these two operations, in this order.
\<close>

theorem sign_hashes_with_curve_hash:
  assumes "sign_digest_deterministic (private_key self) = Some prim"
  shows "(cls self = NIST256pSigner \<or> cls self = SECP256k1Signer \<longrightarrow>
            sign env self fs w =
              ((case prim (sha256 env (concat fs)) hashlib_sha256 of
                  None \<Rightarrow> Inl SigningPrimitiveError | Some sg \<Rightarrow> Inr sg),
               w @ [Hashed hashlib_sha256 (concat fs),
                    SignedDigestDeterministic (sha256 env (concat fs)) hashlib_sha256])) \<and>
         (cls self = NIST384pSigner \<longrightarrow>
            sign env self fs w =
              ((case prim (sha384 env (concat fs)) hashlib_sha384 of
                  None \<Rightarrow> Inl SigningPrimitiveError | Some sg \<Rightarrow> Inr sg),
               w @ [Hashed hashlib_sha384 (concat fs),
                    SignedDigestDeterministic (sha384 env (concat fs)) hashlib_sha384]))"
  using sign_with_method [OF assms, of env fs w] by auto

theorem sign_hashes_with_curve_hash_witness:
  "sign_digest_deterministic example_key = Some (\<lambda>d h. Some (0x53 # d)) \<and>
   sign example_env \<lparr>cls = NIST384pSigner, private_key = example_key\<rparr> [[1, 2], [3]] [] =
     (Inr [0x53, 0x30, 1, 2, 3],
      [Hashed hashlib_sha384 [1, 2, 3],
       SignedDigestDeterministic [0x30, 1, 2, 3] hashlib_sha384]) \<and>
   sign example_env \<lparr>cls = SECP256k1Signer, private_key = example_key\<rparr> [[1, 2], [3]] [] =
     (Inr [0x53, 0x20, 1, 2, 3],
      [Hashed hashlib_sha256 [1, 2, 3],
       SignedDigestDeterministic [0x20, 1, 2, 3] hashlib_sha256])"
proof -
  have h: "sign_digest_deterministic (private_key \<lparr>cls = c, private_key = example_key\<rparr>) =
             Some (\<lambda>d h. Some (0x53 # d))" for c
    by (simp add: example_key_def)
  show ?thesis
    using sign_hashes_with_curve_hash [OF h, of NIST384pSigner example_env "[[1, 2], [3]]" "[]"]
          sign_hashes_with_curve_hash [OF h, of SECP256k1Signer example_env "[[1, 2], [3]]" "[]"]
    by (simp add: example_key_def example_env_def)
qed

lemma lower_Foo: "str_lower f (ascii ''Foo'') = str_lower f (ascii ''foo'')"
  by (simp add: ascii_def str_lower_def ascii_lower_def)

lemma sign_stream_claim_valid:
  assumes "validate_claim_id env cert_claim_id"
      and "unhexlify cert_claim_id = Inr raw_cert_id"
      and "decode_address env claim_address = Some decoded_addr"
  shows "sign_stream_claim env self claim claim_address cert_claim_id name detached w =
           (case compute_signature env self claim decoded_addr raw_cert_id name detached w of
              (Inl e, w') \<Rightarrow> (Inl e, w')
            | (Inr signature, w') \<Rightarrow>
                if detached then (detached_result env claim signature raw_cert_id, w')
                else (legacy_result env self claim signature raw_cert_id, w'))"
  using assms by (simp add: sign_stream_claim_def)

lemma sign_stream_claim_Foo:
  "sign_stream_claim env self claim claim_address cert_claim_id (ascii ''Foo'') True w =
   sign_stream_claim env self claim claim_address cert_claim_id (ascii ''foo'') True w"
proof -
  have "compute_signature env self claim da raw (ascii ''Foo'') True w =
        compute_signature env self claim da raw (ascii ''foo'') True w" for da raw
    by (simp add: compute_signature_def lower_Foo) (simp add: ascii_def)
  then show ?thesis
    by (simp add: sign_stream_claim_def split: sum.splits option.splits)
qed

lemma sign_log:
  "snd (sign env self fs w) =
     w @ Hashed (HASHFUNC (cls self)) (concat fs) #
       (case sign_digest_deterministic (private_key self) of
          None \<Rightarrow> []
        | Some prim \<Rightarrow>
            [SignedDigestDeterministic (digest env (HASHFUNC (cls self)) (concat fs))
               (HASHFUNC (cls self))])"
  by (simp add: sign_def Let_def split: option.splits)

lemma sign_Inr:
  assumes "fst (sign env self fs w) = Inr sg"
  shows "\<exists>prim. sign_digest_deterministic (private_key self) = Some prim \<and>
           prim (digest env (HASHFUNC (cls self)) (concat fs)) (HASHFUNC (cls self)) = Some sg"
  using assms by (simp add: sign_def Let_def split: option.splits)

subsection \<open>The signed bytes\<close>

text \<open>
  Claim C1: in a detached invocation with a valid certificate id and address, a
  non-empty name and a SECP256k1 signer, what is hashed is the lower-cased name in UTF-8,
  then the decoded address, then the claim's bytes without signature, then the raw
  certificate id; the digest of these bytes is what is signed, and the signature of the
  result is the one the key made of it. The names \<open>Foo\<close> and \<open>foo\<close> give the same result.
\<close>

theorem detached_signed_bytes:
  assumes "validate_claim_id env cert_claim_id"
      and "unhexlify cert_claim_id = Inr raw_cert_id"
      and "decode_address env claim_address = Some decoded_addr"
      and "name \<noteq> []"
      and "cls self = SECP256k1Signer"
      and "str_encode (str_lower (unicode_lower env) name) = Inr name_bytes"
      and "message = name_bytes @ decoded_addr @ serialized_no_signature claim @ raw_cert_id"
  shows "snd (sign_stream_claim env self claim claim_address cert_claim_id name True w) =
           w @ Hashed hashlib_sha256 message #
             (case sign_digest_deterministic (private_key self) of
                None \<Rightarrow> []
              | Some prim \<Rightarrow> [SignedDigestDeterministic (sha256 env message) hashlib_sha256]) \<and>
         (\<forall>out. fst (sign_stream_claim env self claim claim_address cert_claim_id name True w)
                  = Inr out \<longrightarrow>
            (\<exists>prim sg. sign_digest_deterministic (private_key self) = Some prim \<and>
                  prim (sha256 env message) hashlib_sha256 = Some sg \<and>
                  snd out = Signature
                    (NAMED_SECP256K1 sg raw_cert_id (serialized_no_signature claim)))) \<and>
         sign_stream_claim env self claim claim_address cert_claim_id (ascii ''Foo'') True w =
         sign_stream_claim env self claim claim_address cert_claim_id (ascii ''foo'') True w"
proof -
  let ?fs = "[name_bytes, decoded_addr, serialized_no_signature claim, raw_cert_id]"
  have cs: "compute_signature env self claim decoded_addr raw_cert_id name True w =
              sign env self ?fs w"
    using assms(4-6) by (simp add: compute_signature_def)
  have m: "concat ?fs = message" and h: "HASHFUNC (cls self) = hashlib_sha256"
    using assms(5,7) by simp_all
  obtain r w' where s: "sign env self ?fs w = (r, w')"
    by (cases "sign env self ?fs w")
  have w': "w' = w @ Hashed hashlib_sha256 message #
             (case sign_digest_deterministic (private_key self) of
                None \<Rightarrow> []
              | Some prim \<Rightarrow> [SignedDigestDeterministic (sha256 env message) hashlib_sha256])"
    using sign_log [of env self ?fs w] s m h by (simp split: option.splits)
  have r: "\<exists>prim. sign_digest_deterministic (private_key self) = Some prim \<and>
             prim (sha256 env message) hashlib_sha256 = Some sg" if "r = Inr sg" for sg
    using sign_Inr [of env self ?fs w sg] s m h that by simp
  have run: "sign_stream_claim env self claim claim_address cert_claim_id name True w =
          (case r of Inl e \<Rightarrow> (Inl e, w')
           | Inr signature \<Rightarrow> (detached_result env claim signature raw_cert_id, w'))"
    using sign_stream_claim_valid [OF assms(1-3), of self claim name True w] cs s
    by (simp split: sum.splits)
  have 1: "snd (sign_stream_claim env self claim claim_address cert_claim_id name True w) = w'"
    using run by (simp split: sum.splits)
  have 2: "\<exists>prim sg. sign_digest_deterministic (private_key self) = Some prim \<and>
                  prim (sha256 env message) hashlib_sha256 = Some sg \<and>
                  snd out = Signature
                    (NAMED_SECP256K1 sg raw_cert_id (serialized_no_signature claim))"
    if "fst (sign_stream_claim env self claim claim_address cert_claim_id name True w) = Inr out"
    for out
  proof (cases r)
    case (Inl e)
    with run that show ?thesis by simp
  next
    case (Inr sg)
    with run that have "detached_result env claim sg raw_cert_id = Inr out" by simp
    then have "snd out = Signature (NAMED_SECP256K1 sg raw_cert_id (serialized_no_signature claim))"
      by (auto simp: detached_result_def split: option.splits)
    with r [OF Inr] show ?thesis by blast
  qed
  from 1 2 w' sign_stream_claim_Foo [of env self claim claim_address cert_claim_id w]
  show ?thesis by blast
qed

theorem detached_signed_bytes_witness:
  "validate_claim_id example_env example_cert_id \<and>
   unhexlify example_cert_id = Inr example_raw_cert_id \<and>
   decode_address example_env example_address = Some [98, 88] \<and>
   ascii ''Foo'' \<noteq> [] \<and>
   str_encode (str_lower (unicode_lower example_env) (ascii ''Foo'')) = Inr [102, 111, 111] \<and>
   snd (sign_stream_claim example_env \<lparr>cls = SECP256k1Signer, private_key = example_key\<rparr>
       example_claim example_address example_cert_id (ascii ''Foo'') True []) =
      [Hashed hashlib_sha256 ([102, 111, 111] @ [98, 88] @ [1, 2, 3] @ example_raw_cert_id),
       SignedDigestDeterministic
         (0x20 # [102, 111, 111] @ [98, 88] @ [1, 2, 3] @ example_raw_cert_id)
         hashlib_sha256] \<and>
   fst (sign_stream_claim example_env \<lparr>cls = SECP256k1Signer, private_key = example_key\<rparr>
       example_claim example_address example_cert_id (ascii ''Foo'') True []) =
     Inr (protobuf_dict example_claim,
           Signature (NAMED_SECP256K1
             (0x53 # 0x20 # [102, 111, 111] @ [98, 88] @ [1, 2, 3] @ example_raw_cert_id)
             example_raw_cert_id [1, 2, 3]))"
proof -
  let ?self = "\<lparr>cls = SECP256k1Signer, private_key = example_key\<rparr>"
  have h4: "ascii ''Foo'' \<noteq> []"
    by (simp add: ascii_def)
  have h5: "cls ?self = SECP256k1Signer"
    by simp
  have h6: "str_encode (str_lower (unicode_lower example_env) (ascii ''Foo'')) =
              Inr [102, 111, 111]"
    by (simp add: ascii_def str_lower_def ascii_lower_def utf8_char_def)
  have run: "fst (sign_stream_claim example_env ?self example_claim example_address
                example_cert_id (ascii ''Foo'') True []) =
             Inr (protobuf_dict example_claim,
                  Signature (NAMED_SECP256K1
                    (0x53 # 0x20 # [102, 111, 111] @ [98, 88] @ [1, 2, 3] @ example_raw_cert_id)
                    example_raw_cert_id [1, 2, 3]))"
    using h6 h4 by (simp add: run_simps)
  have log: "snd (sign_stream_claim example_env ?self example_claim example_address
                example_cert_id (ascii ''Foo'') True []) =
      [Hashed hashlib_sha256 ([102, 111, 111] @ [98, 88] @ [1, 2, 3] @ example_raw_cert_id),
       SignedDigestDeterministic
         (0x20 # [102, 111, 111] @ [98, 88] @ [1, 2, 3] @ example_raw_cert_id)
         hashlib_sha256]"
    using detached_signed_bytes [OF validate_example unhexlify_example decode_address_example
            h4 h5 h6 refl, where claim = example_claim and w = "[]", THEN conjunct1]
    by (simp add: example_key_def example_env_simps example_claim_def)
  show ?thesis
    by (intro conjI validate_example unhexlify_example decode_address_example h4 h6 log run)
qed

text \<open>
  Claim C2: in a legacy invocation with a valid certificate id and address, what is
  hashed is the decoded address, then the claim's bytes without signature, then the raw
  certificate id; the digest of these bytes is what is signed. The name does not
  contribute: any two names give the same result.
\<close>

theorem legacy_signed_bytes:
  assumes "validate_claim_id env cert_claim_id"
      and "unhexlify cert_claim_id = Inr raw_cert_id"
      and "decode_address env claim_address = Some decoded_addr"
      and "message = decoded_addr @ serialized_no_signature claim @ raw_cert_id"
      and "h = HASHFUNC (cls self)"
  shows "snd (sign_stream_claim env self claim claim_address cert_claim_id name False w) =
           w @ Hashed h message #
             (case sign_digest_deterministic (private_key self) of
                None \<Rightarrow> []
              | Some prim \<Rightarrow> [SignedDigestDeterministic (digest env h message) h]) \<and>
         sign_stream_claim env self claim claim_address cert_claim_id name False w =
         sign_stream_claim env self claim claim_address cert_claim_id name' False w"
proof -
  let ?fs = "[decoded_addr, serialized_no_signature claim, raw_cert_id]"
  have cs: "compute_signature env self claim decoded_addr raw_cert_id n False w =
              sign env self ?fs w" for n
    by (simp add: compute_signature_def)
  obtain r w' where s: "sign env self ?fs w = (r, w')"
    by (cases "sign env self ?fs w")
  have w': "w' = w @ Hashed h message #
             (case sign_digest_deterministic (private_key self) of
                None \<Rightarrow> []
              | Some prim \<Rightarrow> [SignedDigestDeterministic (digest env h message) h])"
    using sign_log [of env self ?fs w] s assms(4,5) by (simp split: option.splits)
  have run: "sign_stream_claim env self claim claim_address cert_claim_id n False w =
          (case r of Inl e \<Rightarrow> (Inl e, w')
           | Inr signature \<Rightarrow> (legacy_result env self claim signature raw_cert_id, w'))" for n
    using sign_stream_claim_valid [OF assms(1-3), of self claim n False w] cs s
    by (simp split: sum.splits)
  have "snd (sign_stream_claim env self claim claim_address cert_claim_id name False w) = w'"
    using run by (simp split: sum.splits)
  with w' run [of name] run [of name'] show ?thesis by simp
qed

theorem legacy_signed_bytes_witness:
  "validate_claim_id example_env example_cert_id \<and>
   unhexlify example_cert_id = Inr example_raw_cert_id \<and>
   decode_address example_env example_address = Some [98, 88] \<and>
   snd (sign_stream_claim example_env \<lparr>cls = NIST384pSigner, private_key = example_key\<rparr>
       example_claim example_address example_cert_id (ascii ''Foo'') False []) =
     [Hashed hashlib_sha384 ([98, 88] @ [1, 2, 3] @ example_raw_cert_id),
      SignedDigestDeterministic (0x30 # [98, 88] @ [1, 2, 3] @ example_raw_cert_id)
        hashlib_sha384] \<and>
   sign_stream_claim example_env \<lparr>cls = NIST384pSigner, private_key = example_key\<rparr>
       example_claim example_address example_cert_id (ascii ''Foo'') False [] =
   sign_stream_claim example_env \<lparr>cls = NIST384pSigner, private_key = example_key\<rparr>
       example_claim example_address example_cert_id (ascii ''bar'') False []"
proof -
  note t = legacy_signed_bytes [OF validate_example unhexlify_example decode_address_example
          refl refl, where claim = example_claim
          and self = "\<lparr>cls = NIST384pSigner, private_key = example_key\<rparr>"
          and name = "ascii ''Foo''" and w = "[]" and name' = "ascii ''bar''"]
  have a: "snd (sign_stream_claim example_env
                  \<lparr>cls = NIST384pSigner, private_key = example_key\<rparr>
                  example_claim example_address example_cert_id (ascii ''Foo'') False []) =
             [Hashed hashlib_sha384 ([98, 88] @ [1, 2, 3] @ example_raw_cert_id),
              SignedDigestDeterministic (0x30 # [98, 88] @ [1, 2, 3] @ example_raw_cert_id)
                hashlib_sha384]"
    using t [THEN conjunct1]
    by (simp add: example_key_def example_env_simps example_claim_def)
  show ?thesis
    by (intro conjI validate_example unhexlify_example decode_address_example a
          t [THEN conjunct2])
qed

subsection \<open>Determinism\<close>


text \<open>
  A key whose method draws on the randomness signs the same bytes differently in two
  invocations.
\<close>

lemma randomized_key_signs_differently:
  "fst (sign example_env (signer_in_invocation NIST256pSigner example_randomized_key 1)
          [[1, 2], [3]] []) = Inr [1, 0x20, 1, 2, 3] \<and>
   fst (sign example_env (signer_in_invocation NIST256pSigner example_randomized_key 2)
          [[1, 2], [3]] []) = Inr [2, 0x20, 1, 2, 3]"
  by (simp add: sign_def Let_def signer_in_invocation_def key_in_invocation_def
        example_randomized_key_def example_env_def)



subsection \<open>Which failures come before the cryptographic operations\<close>

lemma str_encode_error: "str_encode s = Inl e \<Longrightarrow> e = UnicodeEncodeError"
  by (induction s) (auto split: option.splits sum.splits)

lemma sign_error:
  "sign env self fs w = (Inl e, w') \<Longrightarrow> e = AttributeError \<or> e = SigningPrimitiveError"
  by (auto simp: sign_def Let_def split: option.splits)

lemma compute_signature_error:
  assumes "compute_signature env self claim da raw name detached w = (Inl e, w')"
  shows "e \<in> {MissingName, UnsupportedCurveForDetached} \<and> w' = w \<or>
         e \<in> {UnicodeEncodeError, AttributeError, SigningPrimitiveError}"
  using assms sign_error [of env self _ w e w'] str_encode_error
  by (auto simp: compute_signature_def split: if_splits sum.splits)

lemma detached_result_error:
  "detached_result env claim sg raw = Inl e \<Longrightarrow> e = ClaimCodecError"
  by (auto simp: detached_result_def split: option.splits)

lemma legacy_result_error:
  "legacy_result env self claim sg raw = Inl e \<Longrightarrow>
     e = NotASigningKey \<or> e = ClaimCodecError \<or> e = KeyError ''stream'' \<or>
     e = SignatureParseError"
  by (auto simp: legacy_result_def dict_get_def split: option.splits sum.splits if_splits)

text \<open>
  Claim C3, as amended: a failure with \<open>InvalidCertificateId\<close>, \<open>InvalidAddress\<close>,
  \<open>MissingName\<close> or \<open>UnsupportedCurveForDetached\<close> leaves the log as it was: it is raised
  before anything is hashed or signed.
\<close>

theorem validation_before_crypto:
  assumes "fst (sign_stream_claim env self claim claim_address cert_claim_id name detached w)
             = Inl e"
      and "e \<in> {InvalidCertificateId, InvalidAddress, MissingName, UnsupportedCurveForDetached}"
  shows "snd (sign_stream_claim env self claim claim_address cert_claim_id name detached w) = w"
proof (cases "validate_claim_id env cert_claim_id")
  case False
  then show ?thesis by (simp add: sign_stream_claim_def)
next
  case True
  show ?thesis
  proof (cases "unhexlify cert_claim_id")
    case (Inl e')
    with True show ?thesis by (simp add: sign_stream_claim_def)
  next
    case (Inr raw)
    show ?thesis
    proof (cases "decode_address env claim_address")
      case None
      with True Inr show ?thesis by (simp add: sign_stream_claim_def)
    next
      case (Some da)
      note run = sign_stream_claim_valid [OF True Inr Some, of self claim name detached w]
      obtain r w' where cs: "compute_signature env self claim da raw name detached w = (r, w')"
        by (cases "compute_signature env self claim da raw name detached w")
      show ?thesis
      proof (cases r)
        case (Inl e')
        with run cs assms(1) have "e' = e" by simp
        with compute_signature_error [of env self claim da raw name detached w e w'] cs Inl assms(2)
        have "w' = w" by auto
        with run cs Inl show ?thesis by simp
      next
        case (Inr sg)
        show ?thesis
        proof (cases detached)
          case True
          with run cs Inr assms(1) have "detached_result env claim sg raw = Inl e" by simp
          from detached_result_error [OF this] assms(2) show ?thesis by simp
        next
          case False
          with run cs Inr assms(1) have "legacy_result env self claim sg raw = Inl e" by simp
          from legacy_result_error [OF this] assms(2) show ?thesis by auto
        qed
      qed
    qed
  qed
qed

theorem validation_before_crypto_witness:
  "fst (sign_stream_claim example_env \<lparr>cls = NIST256pSigner, private_key = example_key\<rparr>
          example_claim [] example_cert_id (ascii ''Foo'') False [Hashed hashlib_sha256 []])
     = Inl InvalidAddress \<and>
   InvalidAddress \<in> {InvalidCertificateId, InvalidAddress, MissingName,
                      UnsupportedCurveForDetached} \<and>
   snd (sign_stream_claim example_env \<lparr>cls = NIST256pSigner, private_key = example_key\<rparr>
          example_claim [] example_cert_id (ascii ''Foo'') False [Hashed hashlib_sha256 []])
     = [Hashed hashlib_sha256 []]"
proof -
  have h1: "fst (sign_stream_claim example_env
                   \<lparr>cls = NIST256pSigner, private_key = example_key\<rparr>
                   example_claim [] example_cert_id (ascii ''Foo'') False
                   [Hashed hashlib_sha256 []])
              = Inl InvalidAddress"
    using validate_example unhexlify_example
    by (simp add: sign_stream_claim_def) (simp add: example_env_def)
  have h2: "InvalidAddress \<in> {InvalidCertificateId, InvalidAddress, MissingName,
                      UnsupportedCurveForDetached}"
    by simp
  show ?thesis
    by (intro conjI h1 h2 validation_before_crypto [OF h1 h2])
qed

text \<open>
  Claim C3 as stated includes \<open>NotASigningKey\<close>. The check for it is made in the legacy
  part of \<open>sign_stream_claim\<close>, after the call of \<open>sign\<close>: with a private key that is no
  \<^verbatim>\<open>ecdsa.SigningKey\<close> but has the method \<^verbatim>\<open>sign_digest_deterministic\<close>, the bytes are
  hashed, the digest is signed, and then the call fails with \<open>NotASigningKey\<close>.
\<close>

theorem not_a_signing_key_after_signature:
  "sign_stream_claim example_env \<lparr>cls = NIST256pSigner, private_key = example_foreign_key\<rparr>
       example_claim example_address example_cert_id (ascii ''Foo'') False [] =
     (Inl NotASigningKey,
      [Hashed hashlib_sha256 ([98, 88] @ [1, 2, 3] @ example_raw_cert_id),
       SignedDigestDeterministic (0x20 # [98, 88] @ [1, 2, 3] @ example_raw_cert_id)
         hashlib_sha256])"
  by (simp add: sign_stream_claim_def validate_example unhexlify_example
        decode_address_example compute_signature_def sign_def Let_def legacy_result_def
        example_env_simps example_foreign_key_def example_claim_def)

subsection \<open>The checks of the detached mode\<close>

lemma CURVE_NAME_SECP256k1: "CURVE_NAME c = Some SECP256k1 \<longleftrightarrow> c = SECP256k1Signer"
  by (cases c) (simp_all add: SECP256k1_def NIST256p_def NIST384p_def)

lemma sign_result:
  assumes "sign_digest_deterministic (private_key self) = Some prim"
      and "prim (digest env (HASHFUNC (cls self)) (concat fs)) (HASHFUNC (cls self)) = Some sg"
  shows "sign env self fs w =
           (Inr sg,
            w @ [Hashed (HASHFUNC (cls self)) (concat fs),
                 SignedDigestDeterministic (digest env (HASHFUNC (cls self)) (concat fs))
                   (HASHFUNC (cls self))])"
  using assms by (simp add: sign_def Let_def)

text \<open>
  Claim C4, as amended: in a detached invocation whose certificate id and address are
  valid, an empty name fails with \<open>MissingName\<close>; a non-empty name with a signer of
  another class than \<open>SECP256k1Signer\<close> fails with \<open>UnsupportedCurveForDetached\<close>; and
  with a \<open>SECP256k1Signer\<close>, a non-empty name that can be encoded, a key that signs the
  digest and a codec that loads the claim's fields, the call succeeds and returns the
  loaded claim with the detached signature.
\<close>

theorem detached_preconditions:
  assumes "validate_claim_id env cert_claim_id"
      and "unhexlify cert_claim_id = Inr raw_cert_id"
      and "decode_address env claim_address = Some decoded_addr"
  shows "(name = [] \<longrightarrow>
            sign_stream_claim env self claim claim_address cert_claim_id name True w =
              (Inl MissingName, w)) \<and>
         (name \<noteq> [] \<and> cls self \<noteq> SECP256k1Signer \<longrightarrow>
            sign_stream_claim env self claim claim_address cert_claim_id name True w =
              (Inl UnsupportedCurveForDetached, w)) \<and>
         (name \<noteq> [] \<and> cls self = SECP256k1Signer \<and>
          str_encode (str_lower (unicode_lower env) name) = Inr name_bytes \<and>
          sign_digest_deterministic (private_key self) = Some prim \<and>
          prim (sha256 env
                 (name_bytes @ decoded_addr @ serialized_no_signature claim @ raw_cert_id))
               hashlib_sha256 = Some sg \<and>
          decode_b64_fields env (protobuf_dict claim) = Some decoded \<and>
          Claim_load env decoded = Some loaded \<longrightarrow>
            fst (sign_stream_claim env self claim claim_address cert_claim_id name True w) =
              Inr (loaded,
                   Signature (NAMED_SECP256K1 sg raw_cert_id (serialized_no_signature claim))))"
proof (intro conjI impI)
  note run = sign_stream_claim_valid [OF assms, of self claim name True w]
  {
    assume "name = []"
    then show "sign_stream_claim env self claim claim_address cert_claim_id name True w =
                 (Inl MissingName, w)"
      using run by (simp add: compute_signature_def)
  next
    assume "name \<noteq> [] \<and> cls self \<noteq> SECP256k1Signer"
    then show "sign_stream_claim env self claim claim_address cert_claim_id name True w =
                 (Inl UnsupportedCurveForDetached, w)"
      using run by (simp add: compute_signature_def CURVE_NAME_SECP256k1)
  next
    assume a: "name \<noteq> [] \<and> cls self = SECP256k1Signer \<and>
          str_encode (str_lower (unicode_lower env) name) = Inr name_bytes \<and>
          sign_digest_deterministic (private_key self) = Some prim \<and>
          prim (sha256 env
                 (name_bytes @ decoded_addr @ serialized_no_signature claim @ raw_cert_id))
               hashlib_sha256 = Some sg \<and>
          decode_b64_fields env (protobuf_dict claim) = Some decoded \<and>
          Claim_load env decoded = Some loaded"
    let ?fs = "[name_bytes, decoded_addr, serialized_no_signature claim, raw_cert_id]"
    from a have "fst (sign env self ?fs w) = Inr sg"
      using sign_result [of self prim env ?fs sg w] by simp
    moreover from a have "compute_signature env self claim decoded_addr raw_cert_id name True w =
                   sign env self ?fs w"
      by (simp add: compute_signature_def CURVE_NAME_SECP256k1)
    moreover from a have "detached_result env claim sg raw_cert_id =
        Inr (loaded, Signature (NAMED_SECP256K1 sg raw_cert_id (serialized_no_signature claim)))"
      by (simp add: detached_result_def)
    ultimately show "fst (sign_stream_claim env self claim claim_address cert_claim_id name True w) =
              Inr (loaded,
                   Signature (NAMED_SECP256K1 sg raw_cert_id (serialized_no_signature claim)))"
      using run by (cases "sign env self ?fs w") simp
  }
qed

theorem detached_preconditions_witness:
  "validate_claim_id example_env example_cert_id \<and>
   unhexlify example_cert_id = Inr example_raw_cert_id \<and>
   decode_address example_env example_address = Some [98, 88] \<and>
   sign_stream_claim example_env \<lparr>cls = SECP256k1Signer, private_key = example_key\<rparr>
       example_claim example_address example_cert_id [] True [] = (Inl MissingName, []) \<and>
   sign_stream_claim example_env \<lparr>cls = NIST384pSigner, private_key = example_key\<rparr>
       example_claim example_address example_cert_id (ascii ''Foo'') True [] =
     (Inl UnsupportedCurveForDetached, []) \<and>
   fst (sign_stream_claim example_env \<lparr>cls = SECP256k1Signer, private_key = example_key\<rparr>
       example_claim example_address example_cert_id (ascii ''Foo'') True []) =
     Inr (protobuf_dict example_claim,
          Signature (NAMED_SECP256K1
            (0x53 # 0x20 # [102, 111, 111] @ [98, 88] @ [1, 2, 3] @ example_raw_cert_id)
            example_raw_cert_id [1, 2, 3]))"
proof -
  note t = detached_preconditions [OF validate_example unhexlify_example decode_address_example]
  have a: "sign_stream_claim example_env \<lparr>cls = SECP256k1Signer, private_key = example_key\<rparr>
       example_claim example_address example_cert_id [] True [] = (Inl MissingName, [])"
    using t [where name = "[]", THEN conjunct1] by simp
  have b: "sign_stream_claim example_env \<lparr>cls = NIST384pSigner, private_key = example_key\<rparr>
       example_claim example_address example_cert_id (ascii ''Foo'') True [] =
     (Inl UnsupportedCurveForDetached, [])"
    using t [where name = "ascii ''Foo''" and self = "\<lparr>cls = NIST384pSigner, private_key = example_key\<rparr>",
             THEN conjunct2, THEN conjunct1]
    by (simp add: ascii_def)
  have c: "fst (sign_stream_claim example_env \<lparr>cls = SECP256k1Signer, private_key = example_key\<rparr>
       example_claim example_address example_cert_id (ascii ''Foo'') True []) =
     Inr (protobuf_dict example_claim,
          Signature (NAMED_SECP256K1
            (0x53 # 0x20 # [102, 111, 111] @ [98, 88] @ [1, 2, 3] @ example_raw_cert_id)
            example_raw_cert_id [1, 2, 3]))"
    using t [where name = "ascii ''Foo''"
               and self = "\<lparr>cls = SECP256k1Signer, private_key = example_key\<rparr>"
               and name_bytes = "[102, 111, 111]" and claim = example_claim
               and prim = "\<lambda>d h. Some (0x53 # d)"
               and sg = "0x53 # 0x20 # [102, 111, 111] @ [98, 88] @ [1, 2, 3] @ example_raw_cert_id"
               and decoded = "protobuf_dict example_claim"
               and loaded = "protobuf_dict example_claim" and w = "[]",
             THEN conjunct2, THEN conjunct2]
    by (simp add: example_env_simps example_key_def example_claim_def)
       (simp add: ascii_def str_lower_def ascii_lower_def utf8_char_def)
  show ?thesis
    by (intro conjI validate_example unhexlify_example decode_address_example a b c)
qed

text \<open>
  Claim C4 as stated gives each failure for every detached invocation. The checks run
  in order: a signer for NIST256p with an empty name fails with \<open>MissingName\<close>, not with
  \<open>UnsupportedCurveForDetached\<close>, and an empty name with an invalid certificate id fails
  with \<open>InvalidCertificateId\<close>, not with \<open>MissingName\<close>.
\<close>

theorem detached_check_order:
  "fst (sign_stream_claim example_env \<lparr>cls = NIST256pSigner, private_key = example_key\<rparr>
          example_claim example_address example_cert_id [] True []) = Inl MissingName \<and>
   CURVE_NAME NIST256pSigner = Some NIST256p \<and>
   fst (sign_stream_claim example_env \<lparr>cls = SECP256k1Signer, private_key = example_key\<rparr>
          example_claim example_address (ascii ''xyz'') [] True []) = Inl InvalidCertificateId"
  using validate_example unhexlify_example decode_address_example
  by (simp add: sign_stream_claim_def compute_signature_def)
     (simp add: example_env_def ascii_def)

subsection \<open>The legacy result\<close>

lemma legacy_envelope_msg:
  "legacy_envelope (msg env self stream sg raw) =
     Some (Signature (LEGACY (V_0_0_1 env)
             (case CURVE_NAME (cls self) of None \<Rightarrow> PNone | Some n \<Rightarrow> PStr n) sg raw))"
  by (simp add: legacy_envelope_def msg_def sig_dict_def)

lemma legacy_result_Inr:
  assumes "legacy_result env self claim sg raw = Inr (proto, parsed)"
  shows "is_SigningKey (private_key self) \<and>
         (\<exists>decoded stream serialized.
            decode_b64_fields env (protobuf_dict claim) = Some decoded \<and>
            map_of decoded ''stream'' = Some stream \<and>
            Claim_load env (msg env self stream sg raw) = Some proto \<and>
            SerializeToString env proto = Some serialized \<and>
            flagged_parse env serialized = Some parsed)"
  using assms
  by (auto simp: legacy_result_def dict_get_def split: if_splits option.splits sum.splits)

lemma sign_stream_claim_legacy_Inr:
  assumes "sign_stream_claim env self claim claim_address cert_claim_id name False w =
             (Inr out, w')"
  shows "\<exists>raw da sg.
           validate_claim_id env cert_claim_id \<and> unhexlify cert_claim_id = Inr raw \<and>
           decode_address env claim_address = Some da \<and>
           sign env self [da, serialized_no_signature claim, raw] w = (Inr sg, w') \<and>
           legacy_result env self claim sg raw = Inr out"
  using assms
  by (auto simp: sign_stream_claim_def compute_signature_def
           split: if_splits option.splits sum.splits prod.splits)

text \<open>
  Claim C7: when a legacy invocation succeeds and the codec keeps the contract of the
  signature parser on the message built by this invocation, the envelope parsed from the
  final serialized claim is the legacy envelope whose signature is the one that \<open>sign\<close>
  computed over the decoded address, the claim's bytes without signature and the raw
  certificate id.
\<close>

theorem legacy_round_trip:
  assumes "sign_stream_claim env self claim claim_address cert_claim_id name False w =
             (Inr (proto, parsed), w')"
      and "unhexlify cert_claim_id = Inr raw_cert_id"
      and "decode_address env claim_address = Some decoded_addr"
      and "fst (sign env self [decoded_addr, serialized_no_signature claim, raw_cert_id] w) =
             Inr sg"
      and "decode_b64_fields env (protobuf_dict claim) = Some decoded"
      and "dict_get decoded ''stream'' = Inr stream"
      and "signature_parser_contract env (msg env self stream sg raw_cert_id)"
  shows "parsed = Signature (LEGACY (V_0_0_1 env)
                    (case CURVE_NAME (cls self) of None \<Rightarrow> PNone | Some n \<Rightarrow> PStr n)
                    sg raw_cert_id)"
proof -
  from sign_stream_claim_legacy_Inr [OF assms(1)] assms(2,3,4)
  have "legacy_result env self claim sg raw_cert_id = Inr (proto, parsed)"
    by auto
  from legacy_result_Inr [OF this] assms(5,6)
  obtain serialized where
    "Claim_load env (msg env self stream sg raw_cert_id) = Some proto"
    "SerializeToString env proto = Some serialized"
    "flagged_parse env serialized = Some parsed"
    by (auto simp: dict_get_def split: option.splits)
  with assms(7) have "Some parsed = legacy_envelope (msg env self stream sg raw_cert_id)"
    by (simp add: signature_parser_contract_def)
  then show ?thesis
    by (simp add: legacy_envelope_msg)
qed

lemma example_legacy_run:
  "sign_stream_claim example_env \<lparr>cls = NIST256pSigner, private_key = example_key\<rparr>
       example_claim example_address example_cert_id (ascii ''Foo'') False [] =
     (Inr (msg example_env \<lparr>cls = NIST256pSigner, private_key = example_key\<rparr> (PDict [])
             (0x53 # 0x20 # [98, 88] @ [1, 2, 3] @ example_raw_cert_id) example_raw_cert_id,
           Signature (LEGACY (PStr ''_0_0_1'') (PStr ''NIST256p'')
             (0x53 # 0x20 # [98, 88] @ [1, 2, 3] @ example_raw_cert_id) example_raw_cert_id)),
      [Hashed hashlib_sha256 ([98, 88] @ [1, 2, 3] @ example_raw_cert_id),
       SignedDigestDeterministic (0x20 # [98, 88] @ [1, 2, 3] @ example_raw_cert_id)
         hashlib_sha256])"
  by (simp add: run_simps dict_get_def legacy_envelope_msg example_serialize_def
        example_parse_def example_raw_cert_id_def)


lemma example_contract:
  "signature_parser_contract example_env
     (msg example_env \<lparr>cls = NIST256pSigner, private_key = example_key\<rparr> (PDict [])
        (0x53 # 0x20 # [98, 88] @ [1, 2, 3] @ example_raw_cert_id) example_raw_cert_id)"
  by (simp add: signature_parser_contract_def example_env_simps legacy_envelope_msg
        example_serialize_def example_parse_def example_raw_cert_id_def NIST256p_def)

theorem legacy_round_trip_witness:
  "\<exists>proto parsed w'.
     sign_stream_claim example_env \<lparr>cls = NIST256pSigner, private_key = example_key\<rparr>
       example_claim example_address example_cert_id (ascii ''Foo'') False [] =
       (Inr (proto, parsed), w') \<and>
     unhexlify example_cert_id = Inr example_raw_cert_id \<and>
     decode_address example_env example_address = Some [98, 88] \<and>
     fst (sign example_env \<lparr>cls = NIST256pSigner, private_key = example_key\<rparr>
            [[98, 88], serialized_no_signature example_claim, example_raw_cert_id] []) =
       Inr (0x53 # 0x20 # [98, 88] @ [1, 2, 3] @ example_raw_cert_id) \<and>
     decode_b64_fields example_env (protobuf_dict example_claim) =
       Some (protobuf_dict example_claim) \<and>
     dict_get (protobuf_dict example_claim) ''stream'' = Inr (PDict []) \<and>
     signature_parser_contract example_env
       (msg example_env \<lparr>cls = NIST256pSigner, private_key = example_key\<rparr> (PDict [])
          (0x53 # 0x20 # [98, 88] @ [1, 2, 3] @ example_raw_cert_id) example_raw_cert_id) \<and>
     parsed = Signature (LEGACY (PStr ''_0_0_1'') (PStr NIST256p)
                (0x53 # 0x20 # [98, 88] @ [1, 2, 3] @ example_raw_cert_id)
                example_raw_cert_id)"
proof -
  let ?self = "\<lparr>cls = NIST256pSigner, private_key = example_key\<rparr>"
  let ?sg = "0x53 # 0x20 # [98, 88] @ [1, 2, 3] @ example_raw_cert_id"
  obtain proto parsed w' where
    run: "sign_stream_claim example_env ?self example_claim example_address example_cert_id
            (ascii ''Foo'') False [] = (Inr (proto, parsed), w')"
    using example_legacy_run by blast
  have h4: "fst (sign example_env ?self
                  [[98, 88], serialized_no_signature example_claim, example_raw_cert_id] []) =
              Inr ?sg"
    by (simp add: sign_def Let_def example_key_def example_env_simps example_claim_def)
  have h5: "decode_b64_fields example_env (protobuf_dict example_claim) =
              Some (protobuf_dict example_claim)"
    by (simp add: example_env_simps)
  have h6: "dict_get (protobuf_dict example_claim) ''stream'' = Inr (PDict [])"
    by (simp add: dict_get_def example_claim_def)
  have "parsed = Signature (LEGACY (PStr ''_0_0_1'') (PStr NIST256p) ?sg example_raw_cert_id)"
    using legacy_round_trip [OF run unhexlify_example decode_address_example h4 h5 h6
            example_contract]
    by (simp add: example_env_simps)
  with run h4 h5 h6 example_contract unhexlify_example decode_address_example
  show ?thesis by blast
qed

text \<open>
  Claim C10: a legacy invocation succeeds only when the decoded field mapping of the
  claim has an entry \<open>stream\<close>, and the claim that is returned is loaded from a message
  holding that entry. When all the preconditions hold and the key signs, but the decoded
  mapping has no entry \<open>stream\<close>, the call fails with \<open>KeyError\<close>, after the bytes have
  been hashed and the digest signed.
\<close>

theorem legacy_needs_stream:
  "(sign_stream_claim env self claim claim_address cert_claim_id name False w =
      (Inr (proto, parsed), w') \<longrightarrow>
      (\<exists>decoded stream sg raw.
         decode_b64_fields env (protobuf_dict claim) = Some decoded \<and>
         map_of decoded ''stream'' = Some stream \<and>
         Claim_load env (msg env self stream sg raw) = Some proto)) \<and>
   (validate_claim_id env cert_claim_id \<and>
    unhexlify cert_claim_id = Inr raw_cert_id \<and>
    decode_address env claim_address = Some decoded_addr \<and>
    is_SigningKey (private_key self) \<and>
    sign_digest_deterministic (private_key self) = Some prim \<and>
    h = HASHFUNC (cls self) \<and>
    message = decoded_addr @ serialized_no_signature claim @ raw_cert_id \<and>
    prim (digest env h message) h = Some signature \<and>
    decode_b64_fields env (protobuf_dict claim) = Some decoded \<and>
    map_of decoded ''stream'' = None \<longrightarrow>
      sign_stream_claim env self claim claim_address cert_claim_id name False w =
        (Inl (KeyError ''stream''),
         w @ [Hashed h message, SignedDigestDeterministic (digest env h message) h]))"
proof (intro conjI impI)
  assume "sign_stream_claim env self claim claim_address cert_claim_id name False w =
            (Inr (proto, parsed), w')"
  from sign_stream_claim_legacy_Inr [OF this]
  obtain raw sg where "legacy_result env self claim sg raw = Inr (proto, parsed)"
    by blast
  from legacy_result_Inr [OF this]
  show "\<exists>decoded stream sg raw.
         decode_b64_fields env (protobuf_dict claim) = Some decoded \<and>
         map_of decoded ''stream'' = Some stream \<and>
         Claim_load env (msg env self stream sg raw) = Some proto"
    by blast
next
  assume a: "validate_claim_id env cert_claim_id \<and>
    unhexlify cert_claim_id = Inr raw_cert_id \<and>
    decode_address env claim_address = Some decoded_addr \<and>
    is_SigningKey (private_key self) \<and>
    sign_digest_deterministic (private_key self) = Some prim \<and>
    h = HASHFUNC (cls self) \<and>
    message = decoded_addr @ serialized_no_signature claim @ raw_cert_id \<and>
    prim (digest env h message) h = Some signature \<and>
    decode_b64_fields env (protobuf_dict claim) = Some decoded \<and>
    map_of decoded ''stream'' = None"
  let ?fs = "[decoded_addr, serialized_no_signature claim, raw_cert_id]"
  from a have sd: "sign_digest_deterministic (private_key self) = Some prim"
    and p: "prim (digest env (HASHFUNC (cls self)) (concat ?fs)) (HASHFUNC (cls self)) =
              Some signature"
    and hm: "HASHFUNC (cls self) = h" "concat ?fs = message"
    by auto
  have s: "sign env self ?fs w =
      (Inr signature,
       w @ [Hashed h message, SignedDigestDeterministic (digest env h message) h])"
    using sign_result [OF sd p, of w] by (simp only: hm)
  from a have l: "legacy_result env self claim signature raw_cert_id = Inl (KeyError ''stream'')"
    by (simp add: legacy_result_def dict_get_def)
  from a s l show "sign_stream_claim env self claim claim_address cert_claim_id name False w =
        (Inl (KeyError ''stream''),
         w @ [Hashed h message, SignedDigestDeterministic (digest env h message) h])"
    by (simp add: sign_stream_claim_def compute_signature_def)
qed

theorem legacy_needs_stream_witness:
  "(\<exists>proto parsed w'.
      sign_stream_claim example_env \<lparr>cls = NIST256pSigner, private_key = example_key\<rparr>
        example_claim example_address example_cert_id (ascii ''Foo'') False [] =
        (Inr (proto, parsed), w') \<and>
      (\<exists>decoded stream sg raw.
         decode_b64_fields example_env (protobuf_dict example_claim) = Some decoded \<and>
         map_of decoded ''stream'' = Some stream \<and>
         Claim_load example_env
           (msg example_env \<lparr>cls = NIST256pSigner, private_key = example_key\<rparr> stream sg raw) =
           Some proto)) \<and>
   validate_claim_id example_env example_cert_id \<and>
   unhexlify example_cert_id = Inr example_raw_cert_id \<and>
   decode_address example_env example_address = Some [98, 88] \<and>
   is_SigningKey example_key \<and>
   decode_b64_fields example_env (protobuf_dict example_certificate_claim) =
     Some (protobuf_dict example_certificate_claim) \<and>
   map_of (protobuf_dict example_certificate_claim) ''stream'' = None \<and>
   sign_stream_claim example_env \<lparr>cls = NIST256pSigner, private_key = example_key\<rparr>
     example_certificate_claim example_address example_cert_id (ascii ''Foo'') False [] =
     (Inl (KeyError ''stream''),
      [Hashed hashlib_sha256 ([98, 88] @ [4, 5] @ example_raw_cert_id),
       SignedDigestDeterministic (0x20 # [98, 88] @ [4, 5] @ example_raw_cert_id)
         hashlib_sha256])"
proof -
  let ?self = "\<lparr>cls = NIST256pSigner, private_key = example_key\<rparr>"
  obtain proto parsed w' where
    run: "sign_stream_claim example_env ?self example_claim example_address example_cert_id
            (ascii ''Foo'') False [] = (Inr (proto, parsed), w')"
    using example_legacy_run by blast
  note t1 = legacy_needs_stream [where env = example_env and self = ?self
      and claim = example_claim and claim_address = example_address
      and cert_claim_id = example_cert_id and name = "ascii ''Foo''" and w = "[]"
      and proto = proto and parsed = parsed and w' = w', THEN conjunct1, rule_format, OF run]
  have k: "is_SigningKey example_key"
    by (simp add: example_key_def)
  have d: "decode_b64_fields example_env (protobuf_dict example_certificate_claim) =
             Some (protobuf_dict example_certificate_claim)"
    by (simp add: example_env_simps)
  have m: "map_of (protobuf_dict example_certificate_claim) ''stream'' = None"
    by (simp add: example_certificate_claim_def)
  have t2: "sign_stream_claim example_env ?self example_certificate_claim example_address
              example_cert_id (ascii ''Foo'') False [] =
     (Inl (KeyError ''stream''),
      [Hashed hashlib_sha256 ([98, 88] @ [4, 5] @ example_raw_cert_id),
       SignedDigestDeterministic (0x20 # [98, 88] @ [4, 5] @ example_raw_cert_id)
         hashlib_sha256])"
    using legacy_needs_stream [where env = example_env and self = ?self
      and claim = example_certificate_claim and claim_address = example_address
      and cert_claim_id = example_cert_id and name = "ascii ''Foo''" and w = "[]"
      and raw_cert_id = example_raw_cert_id and decoded_addr = "[98, 88]"
      and prim = "\<lambda>d h. Some (0x53 # d)" and h = hashlib_sha256
      and message = "[98, 88] @ [4, 5] @ example_raw_cert_id"
      and signature = "0x53 # 0x20 # [98, 88] @ [4, 5] @ example_raw_cert_id"
      and decoded = "protobuf_dict example_certificate_claim", THEN conjunct2]
      validate_example unhexlify_example decode_address_example d m
    by (simp add: example_key_def example_env_simps)
       (simp add: example_certificate_claim_def)
  from run t1 have "\<exists>proto parsed w'.
      sign_stream_claim example_env ?self
        example_claim example_address example_cert_id (ascii ''Foo'') False [] =
        (Inr (proto, parsed), w') \<and>
      (\<exists>decoded stream sg raw.
         decode_b64_fields example_env (protobuf_dict example_claim) = Some decoded \<and>
         map_of decoded ''stream'' = Some stream \<and>
         Claim_load example_env (msg example_env ?self stream sg raw) = Some proto)"
    by blast
  then show ?thesis
    by (intro conjI validate_example unhexlify_example decode_address_example k d m t2)
qed

end
